theory Spec2Isabelle
  imports Main
begin

section \<open>JavaScript values\<close>

text \<open>
  The values that flow through the two source files: what \<^verbatim>\<open>process.env.X\<close> yields
  (a string, or \<^verbatim>\<open>undefined\<close> when the variable is not set), what
  \<^verbatim>\<open>response.json()\<close> resolves to (any JSON value), and what the client keeps in
  its settings. Numbers are kept as integers: the code only ever asks whether a value is
  truthy, and a number is falsy exactly when it is zero. An object is the list of its
  properties, each key once.
\<close>

datatype jsval =
    JUndefined
  | JNull
  | JBool bool
  | JNum int
  | JStr string
  | JArr "jsval list"
  | JObj "(string \<times> jsval) list"

text \<open>ToBoolean: \<^verbatim>\<open>undefined\<close>, \<^verbatim>\<open>null\<close>, \<^verbatim>\<open>false\<close>, \<^verbatim>\<open>0\<close> and
  \<^verbatim>\<open>''\<close> are falsy; every array and object is truthy.\<close>

fun truthy :: "jsval \<Rightarrow> bool" where
  "truthy JUndefined = False"
| "truthy JNull = False"
| "truthy (JBool b) = b"
| "truthy (JNum n) = (n \<noteq> 0)"
| "truthy (JStr s) = (s \<noteq> [])"
| "truthy (JArr xs) = True"
| "truthy (JObj kvs) = True"

text \<open>The operator \<^verbatim>\<open>a || b\<close>: the left operand when it is truthy, the right one otherwise.\<close>

definition js_or :: "jsval \<Rightarrow> jsval \<Rightarrow> jsval" where
  "js_or a b = (if truthy a then a else b)"

text \<open>Property read \<^verbatim>\<open>v.k\<close> on a value that is neither \<^verbatim>\<open>null\<close> nor
  \<^verbatim>\<open>undefined\<close>: the property of an object, \<^verbatim>\<open>undefined\<close> when the object has
  none of that name, and \<^verbatim>\<open>undefined\<close> on a primitive or an array for the four
  names the client reads.\<close>

fun get_prop :: "jsval \<Rightarrow> string \<Rightarrow> jsval" where
  "get_prop (JObj kvs) k = (case map_of kvs k of None \<Rightarrow> JUndefined | Some v \<Rightarrow> v)"
| "get_prop v k = JUndefined"

section \<open>server.js: the configuration endpoint\<close>

text \<open>\<^verbatim>\<open>process.env\<close> maps a variable name to its string value; reading a variable
  that is not set gives \<^verbatim>\<open>undefined\<close>.\<close>

type_synonym process_env = "string \<rightharpoonup> string"

definition env_get :: "process_env \<Rightarrow> string \<Rightarrow> jsval" where
  "env_get env k = (case env k of None \<Rightarrow> JUndefined | Some v \<Rightarrow> JStr v)"

text \<open>The object literal handed to \<^verbatim>\<open>res.json\<close>.\<close>

record config_object =
  cfg_apiKey :: jsval
  cfg_apiProvider :: jsval
  cfg_modelName :: jsval
  cfg_apiBaseUrl :: jsval

definition api_config :: "process_env \<Rightarrow> config_object" where
  "api_config env =
     \<lparr> cfg_apiKey = js_or (js_or (env_get env ''API_KEY'') (env_get env ''OPENAI_API_KEY''))
                          (env_get env ''ANTHROPIC_API_KEY''),
       cfg_apiProvider = js_or (env_get env ''API_PROVIDER'') (JStr ''anthropic''),
       cfg_modelName = js_or (env_get env ''MODEL_NAME'') (JStr ''claude-3-7-sonnet-20250219''),
       cfg_apiBaseUrl = js_or (env_get env ''API_BASE_URL'') (JStr '''') \<rparr>"

text \<open>\<^verbatim>\<open>res.json(obj)\<close> sends \<^verbatim>\<open>JSON.stringify(obj)\<close>, which leaves out every
  property whose value is \<^verbatim>\<open>undefined\<close>. The body is given as the JSON object the
  client parses back.\<close>

definition res_json :: "config_object \<Rightarrow> jsval" where
  "res_json obj =
     JObj (filter (\<lambda>(k, v). v \<noteq> JUndefined)
        [(''apiKey'', cfg_apiKey obj),
         (''apiProvider'', cfg_apiProvider obj),
         (''modelName'', cfg_modelName obj),
         (''apiBaseUrl'', cfg_apiBaseUrl obj)])"

definition get_api_config :: "process_env \<Rightarrow> jsval" where
  "get_api_config env = res_json (api_config env)"

text \<open>The spec's reading of the key lookup, "first present wins": the value of the first
  of the three variables that is set at all.\<close>

definition first_present :: "process_env \<Rightarrow> string list \<Rightarrow> string option" where
  "first_present env ks = (case filter (\<lambda>k. env k \<noteq> None) ks of [] \<Rightarrow> None | k # _ \<Rightarrow> env k)"

text \<open>What the chain of \<^verbatim>\<open>||\<close> computes instead: a variable counts only when it is set
  to a non-empty string.\<close>

definition nonempty_var :: "process_env \<Rightarrow> string \<Rightarrow> bool" where
  "nonempty_var env k = (case env k of None \<Rightarrow> False | Some v \<Rightarrow> v \<noteq> [])"

section \<open>analyzer.js: the client controller\<close>

subsection \<open>State\<close>

record uploaded_file =
  name :: string
  size_bytes :: nat
  content :: string

record analysis_settings =
  agents :: "string list"
  model :: jsval
  outputFormat :: string
  apiKey :: jsval
  provider :: jsval
  apiBaseUrl :: jsval

text \<open>The component's \<^verbatim>\<open>useState\<close> cells. \<^verbatim>\<open>error\<close> and \<^verbatim>\<open>configError\<close> hold
  \<^verbatim>\<open>null\<close> (\<open>None\<close>) or a message; \<^verbatim>\<open>analysisResults\<close> holds \<^verbatim>\<open>null\<close> or the
  JSON of the last successful analysis.\<close>

record ui_state =
  files :: "uploaded_file list"
  analysisSettings :: analysis_settings
  isAnalyzing :: bool
  analysisResults :: jsval
  error :: "string option"
  expandedSections :: "string list"
  configLoaded :: bool
  configError :: "string option"

definition initial_settings :: analysis_settings where
  "initial_settings =
     \<lparr> agents = [''functionality'', ''technical'', ''logic'', ''context''],
       model = JStr ''claude-3-7-sonnet-20250219'',
       outputFormat = ''json'',
       apiKey = JStr '''',
       provider = JStr ''anthropic'',
       apiBaseUrl = JStr '''' \<rparr>"

definition initial_state :: ui_state where
  "initial_state =
     \<lparr> files = [],
       analysisSettings = initial_settings,
       isAnalyzing = False,
       analysisResults = JNull,
       error = None,
       expandedSections = [],
       configLoaded = False,
       configError = None \<rparr>"

subsection \<open>The network\<close>

text \<open>A request as \<^verbatim>\<open>fetch\<close> receives it. The multipart body is the list of
  \<^verbatim>\<open>FormData\<close> entries in the order they were appended; the settings entry carries the
  settings that \<^verbatim>\<open>JSON.stringify\<close> serialises.\<close>

datatype form_part = FilePart uploaded_file | SettingsPart analysis_settings

record request =
  url :: string
  http_method :: string
  form_data :: "(string \<times> form_part) list"

text \<open>A response: its status, and what \<^verbatim>\<open>response.json()\<close> does with its body, which
  either rejects with an error (\<open>Inl\<close> its message) or resolves to the parsed value.\<close>

record response =
  status :: nat
  json :: "string + jsval"

definition ok :: "response \<Rightarrow> bool" where
  "ok r = (200 \<le> status r \<and> status r \<le> 299)"

text \<open>\<^verbatim>\<open>await fetch(...)\<close> either throws (a network failure, with its message) or
  yields a response, whatever its status.\<close>

datatype fetch_result = Rejected string | Resolved response

type_synonym network = "request \<Rightarrow> fetch_result"

subsection \<open>fetchConfig\<close>

definition config_request :: request where
  "config_request =
     \<lparr> url = ''http://localhost:5000/api/config'', http_method = ''GET'', form_data = [] \<rparr>"

text \<open>The body of the \<^verbatim>\<open>try\<close> up to \<^verbatim>\<open>const config = await response.json()\<close>:
  \<open>Inl\<close> the message of what was thrown there (and caught by the \<^verbatim>\<open>catch\<close>),
  \<open>Inr\<close> the parsed configuration.\<close>

definition fetchConfig_try :: "fetch_result \<Rightarrow> string + jsval" where
  "fetchConfig_try fr =
     (case fr of
        Rejected msg \<Rightarrow> Inl msg
      | Resolved r \<Rightarrow> if \<not> ok r then Inl ''Failed to load configuration'' else json r)"

text \<open>The updater \<^verbatim>\<open>prev => ({...prev, apiKey: config.apiKey || '', ...})\<close> handed to
  \<^verbatim>\<open>setAnalysisSettings\<close>. The four properties of \<^verbatim>\<open>config\<close> are read when the
  updater runs; reading a property of \<^verbatim>\<open>null\<close> throws a TypeError (\<open>Inl\<close> its
  message, as V8 words it).\<close>

definition apply_config :: "jsval \<Rightarrow> analysis_settings \<Rightarrow> string + analysis_settings" where
  "apply_config config prev =
     (if config = JNull then Inl ''Cannot read properties of null (reading 'apiKey')''
      else if config = JUndefined
      then Inl ''Cannot read properties of undefined (reading 'apiKey')''
      else Inr (prev\<lparr> apiKey := js_or (get_prop config ''apiKey'') (JStr ''''),
                     provider := js_or (get_prop config ''apiProvider'') (JStr ''anthropic''),
                     model := js_or (get_prop config ''modelName'')
                                (JStr ''claude-3-7-sonnet-20250219''),
                     apiBaseUrl := js_or (get_prop config ''apiBaseUrl'') (JStr '''') \<rparr>))"

text \<open>The whole call and the render that follows it. An error thrown before the updater
  is handed over is caught and stored in \<^verbatim>\<open>configError\<close>. The updater itself is run
  by React, not inside the \<^verbatim>\<open>try\<close>: \<^verbatim>\<open>setAnalysisSettings\<close> returns normally,
  \<^verbatim>\<open>setConfigLoaded(true)\<close> is called, and an error the updater throws is thrown by
  the render of the component, where nothing catches it. The result is \<open>Inr\<close> the state
  that is rendered, or \<open>Inl\<close> the message the render throws with the state cells as
  they stand then; with it, the requests issued.\<close>

definition fetchConfig ::
  "network \<Rightarrow> ui_state \<Rightarrow> ((string \<times> ui_state) + ui_state) \<times> request list" where
  "fetchConfig net s =
     (case fetchConfig_try (net config_request) of
        Inl msg \<Rightarrow> (Inr (s\<lparr> configError := Some msg \<rparr>), [config_request])
      | Inr config \<Rightarrow>
          (case apply_config config (analysisSettings s) of
             Inr settings \<Rightarrow>
               (Inr (s\<lparr> analysisSettings := settings, configLoaded := True \<rparr>),
                [config_request])
           | Inl msg \<Rightarrow> (Inl (msg, s\<lparr> configLoaded := True \<rparr>), [config_request])))"

subsection \<open>handleFileUpload\<close>

text \<open>\<^verbatim>\<open>String.prototype.endsWith\<close>.\<close>

definition endsWith :: "string \<Rightarrow> string \<Rightarrow> bool" where
  "endsWith s suf = (length suf \<le> length s \<and> drop (length s - length suf) s = suf)"

definition is_abap_file :: "uploaded_file \<Rightarrow> bool" where
  "is_abap_file file = (endsWith (name file) ''.abap'' \<or> endsWith (name file) ''.ABAP'')"

definition handleFileUpload :: "uploaded_file list \<Rightarrow> ui_state \<Rightarrow> ui_state" where
  "handleFileUpload selectedFiles s =
     (let abapFiles = filter is_abap_file selectedFiles
      in if length abapFiles = 0
         then s\<lparr> error := Some ''Please select ABAP files (.abap extension)'' \<rparr>
         else s\<lparr> files := files s @ abapFiles, error := None \<rparr>)"

text \<open>The spec's reading of the filter, the extension compared without regard to case:
  ASCII letters are folded to lower case before the suffix test.\<close>

definition ascii_lower :: "char \<Rightarrow> char" where
  "ascii_lower c =
     (case map_of (zip ''ABCDEFGHIJKLMNOPQRSTUVWXYZ'' ''abcdefghijklmnopqrstuvwxyz'') c of
        None \<Rightarrow> c
      | Some l \<Rightarrow> l)"

definition has_abap_extension_ci :: "uploaded_file \<Rightarrow> bool" where
  "has_abap_extension_ci file = endsWith (map ascii_lower (name file)) ''.abap''"

subsection \<open>toggleAgent\<close>

definition toggleAgent :: "string \<Rightarrow> ui_state \<Rightarrow> ui_state" where
  "toggleAgent agentId s =
     s\<lparr> analysisSettings :=
          (analysisSettings s)\<lparr> agents :=
             (if agentId \<in> set (agents (analysisSettings s))
              then filter (\<lambda>id. id \<noteq> agentId) (agents (analysisSettings s))
              else agents (analysisSettings s) @ [agentId]) \<rparr> \<rparr>"

subsection \<open>runAnalysis\<close>

definition analyze_request :: "ui_state \<Rightarrow> request" where
  "analyze_request s =
     \<lparr> url = ''http://localhost:5000/api/analyze'',
       http_method = ''POST'',
       form_data = map (\<lambda>file. (''files'', FilePart file)) (files s)
                   @ [(''settings'', SettingsPart (analysisSettings s))] \<rparr>"

text \<open>The synchronous part of \<^verbatim>\<open>runAnalysis\<close>, up to \<^verbatim>\<open>await fetch\<close>: the two
  guards, which return early with a message and no request, and otherwise the two state
  updates and the request that is sent.\<close>

definition runAnalysis_submit :: "ui_state \<Rightarrow> ui_state \<times> request option" where
  "runAnalysis_submit s =
     (if length (files s) = 0
      then (s\<lparr> error := Some ''Please upload at least one ABAP file'' \<rparr>, None)
      else if \<not> truthy (apiKey (analysisSettings s))
      then (s\<lparr> error := Some ''Please provide an API key in settings'' \<rparr>, None)
      else (s\<lparr> isAnalyzing := True, error := None \<rparr>, Some (analyze_request s)))"

text \<open>The rest of the \<^verbatim>\<open>try\<close> body once \<^verbatim>\<open>fetch\<close> has settled: \<open>Inl\<close> the
  message of what was thrown, \<open>Inr\<close> the parsed results.\<close>

definition runAnalysis_try :: "fetch_result \<Rightarrow> string + jsval" where
  "runAnalysis_try fr =
     (case fr of
        Rejected msg \<Rightarrow> Inl msg
      | Resolved r \<Rightarrow> if \<not> ok r then Inl ''Analysis failed'' else json r)"

text \<open>\<^verbatim>\<open>try\<close>, \<^verbatim>\<open>catch\<close> and \<^verbatim>\<open>finally\<close> after the request has settled.\<close>

definition runAnalysis_settle :: "fetch_result \<Rightarrow> ui_state \<Rightarrow> ui_state" where
  "runAnalysis_settle fr s =
     (let s' = (case runAnalysis_try fr of
                  Inr results \<Rightarrow> s\<lparr> analysisResults := results \<rparr>
                | Inl msg \<Rightarrow> s\<lparr> error := Some (''Analysis failed: '' @ msg) \<rparr>)
      in s'\<lparr> isAnalyzing := False \<rparr>)"

text \<open>The whole call: the final state and the requests issued.\<close>

definition runAnalysis :: "network \<Rightarrow> ui_state \<Rightarrow> ui_state \<times> request list" where
  "runAnalysis net s =
     (case runAnalysis_submit s of
        (s1, None) \<Rightarrow> (s1, [])
      | (s1, Some rq) \<Rightarrow> (runAnalysis_settle (net rq) s1, [rq]))"

subsection \<open>What the component renders\<close>

text \<open>\<^verbatim>\<open>{error && (...{error}...)}\<close>: the message shown, if any.\<close>

definition shown_error :: "ui_state \<Rightarrow> string option" where
  "shown_error s = (case error s of None \<Rightarrow> None | Some msg \<Rightarrow> if msg = [] then None else Some msg)"

text \<open>\<^verbatim>\<open>{analysisResults && <AnalysisResultsViewer analysisResults={analysisResults} />}\<close>:
  the results handed to the viewer, if any.\<close>

definition shown_results :: "ui_state \<Rightarrow> jsval option" where
  "shown_results s = (if truthy (analysisResults s) then Some (analysisResults s) else None)"

text \<open>The two preconditions of a submit.\<close>

definition submit_guard :: "ui_state \<Rightarrow> bool" where
  "submit_guard s = (files s \<noteq> [] \<and> truthy (apiKey (analysisSettings s)))"

text \<open>The controller has no state variable of its own for the four states of the spec;
  they are read off the flags. A run is in flight while \<^verbatim>\<open>isAnalyzing\<close> is set; it has
  succeeded with some results when the flag is down, no error is set and the results are
  stored; it has failed when the flag is down and an error message is set.\<close>

definition analyzing :: "ui_state \<Rightarrow> bool" where
  "analyzing s = isAnalyzing s"

definition succeeded :: "jsval \<Rightarrow> ui_state \<Rightarrow> bool" where
  "succeeded results s = (\<not> isAnalyzing s \<and> error s = None \<and> analysisResults s = results)"

definition failed :: "ui_state \<Rightarrow> bool" where
  "failed s = (\<not> isAnalyzing s \<and> shown_error s \<noteq> None)"

section \<open>Sample inputs\<close>

definition report_file :: uploaded_file where
  "report_file = \<lparr> name = ''zreport.abap'', size_bytes = 2048, content = ''REPORT zreport.'' \<rparr>"

definition upper_file :: uploaded_file where
  "upper_file = \<lparr> name = ''ZCL_ORDER.ABAP'', size_bytes = 512, content = ''CLASS zcl_order.'' \<rparr>"

definition mixed_case_file :: uploaded_file where
  "mixed_case_file = \<lparr> name = ''zutil.Abap'', size_bytes = 100, content = ''FORM util.'' \<rparr>"

definition text_file :: uploaded_file where
  "text_file = \<lparr> name = ''notes.txt'', size_bytes = 10, content = ''todo'' \<rparr>"

text \<open>The initial state once a configuration with a key has been loaded.\<close>

definition keyed_state :: ui_state where
  "keyed_state =
     initial_state\<lparr> analysisSettings := initial_settings\<lparr> apiKey := JStr ''sk-test'' \<rparr>,
                    configLoaded := True \<rparr>"

text \<open>The same with one file uploaded: both preconditions of a submit hold.\<close>

definition ready_state :: ui_state where
  "ready_state = keyed_state\<lparr> files := [report_file] \<rparr>"

definition old_results :: jsval where
  "old_results = JObj [(''summary'', JStr ''first run'')]"

definition new_results :: jsval where
  "new_results = JObj [(''summary'', JStr ''second run'')]"

definition ok_response :: response where
  "ok_response = \<lparr> status = 200, json = Inr new_results \<rparr>"

definition error_response :: response where
  "error_response =
     \<lparr> status = 500, json = Inr (JObj [(''detail'', JStr ''provider quota exceeded'')]) \<rparr>"

definition unparsable_response :: response where
  "unparsable_response = \<lparr> status = 200, json = Inl ''Unexpected end of JSON input'' \<rparr>"

text \<open>A network that answers every request the same way.\<close>

definition always :: "fetch_result \<Rightarrow> network" where
  "always fr rq = fr"

text \<open>A state in which an earlier analysis has succeeded and its results are on screen.\<close>

definition analysed_state :: ui_state where
  "analysed_state = ready_state\<lparr> analysisResults := old_results \<rparr>"

text \<open>Environments: one with only the Anthropic key set, one in which \<^verbatim>\<open>API_KEY\<close> is
  set but empty (a line \<^verbatim>\<open>API_KEY=\<close> in the \<^verbatim>\<open>.env\<close> file) next to a real OpenAI
  key and an empty \<^verbatim>\<open>API_PROVIDER\<close>, and one with nothing set.\<close>

definition anthropic_env :: process_env where
  "anthropic_env = [''ANTHROPIC_API_KEY'' \<mapsto> ''sk-ant-1'']"

definition blank_key_env :: process_env where
  "blank_key_env =
     [''API_KEY'' \<mapsto> '''', ''OPENAI_API_KEY'' \<mapsto> ''sk-live'', ''API_PROVIDER'' \<mapsto> '''']"

definition empty_env :: process_env where
  "empty_env = Map.empty"

text \<open>A configuration response in which the provider and the model are present but
  empty.\<close>

definition blank_provider_config :: jsval where
  "blank_provider_config =
     JObj [(''apiKey'', JStr ''sk-live''), (''apiProvider'', JStr ''''),
           (''modelName'', JStr ''''), (''apiBaseUrl'', JStr ''https://proxy.example/v1'')]"

definition blank_provider_response :: response where
  "blank_provider_response = \<lparr> status = 200, json = Inr blank_provider_config \<rparr>"

text \<open>The response of the configuration endpoint of \<^verbatim>\<open>server.js\<close> in a given
  environment.\<close>

definition served_config :: "process_env \<Rightarrow> response" where
  "served_config env = \<lparr> status = 200, json = Inr (get_api_config env) \<rparr>"

text \<open>A 200 response whose body is the JSON text \<^verbatim>\<open>null\<close>.\<close>

definition null_response :: response where
  "null_response = \<lparr> status = 200, json = Inr JNull \<rparr>"

section \<open>Helper facts\<close>

lemma ok_sample_responses:
  "ok ok_response" "\<not> ok error_response" "ok unparsable_response"
  by (simp_all add: ok_def ok_response_def error_response_def unparsable_response_def)

lemma is_abap_samples:
  "is_abap_file report_file" "is_abap_file upper_file"
  "\<not> is_abap_file mixed_case_file" "\<not> is_abap_file text_file"
  by (simp_all add: is_abap_file_def endsWith_def report_file_def upper_file_def
      mixed_case_file_def text_file_def)

lemma ready_state_simps:
  "files ready_state = [report_file]"
  "apiKey (analysisSettings ready_state) = JStr ''sk-test''"
  "isAnalyzing ready_state = False"
  "error ready_state = None"
  "analysisResults ready_state = JNull"
  by (simp_all add: ready_state_def keyed_state_def initial_state_def initial_settings_def)

lemma keyed_state_simps:
  "files keyed_state = []"
  "apiKey (analysisSettings keyed_state) = JStr ''sk-test''"
  "isAnalyzing keyed_state = False"
  by (simp_all add: keyed_state_def initial_state_def initial_settings_def)

lemma runAnalysis_submit_guarded:
  "submit_guard s \<Longrightarrow>
     runAnalysis_submit s = (s\<lparr> isAnalyzing := True, error := None \<rparr>, Some (analyze_request s))"
  by (simp add: submit_guard_def runAnalysis_submit_def)

section \<open>runAnalysis: the guards\<close>

text \<open>
  C5. With no uploaded file and an API key configured, \<^verbatim>\<open>runAnalysis\<close> issues no
  request and sets the message asking for a file; every other state variable keeps its
  value.
\<close>

theorem runAnalysis_no_files:
  assumes "files s = []" and "truthy (apiKey (analysisSettings s))"
  shows "runAnalysis net s = (s\<lparr> error := Some ''Please upload at least one ABAP file'' \<rparr>, [])"
  using assms by (simp add: runAnalysis_def runAnalysis_submit_def)

theorem runAnalysis_no_files_witness:
  "files keyed_state = [] \<and> truthy (apiKey (analysisSettings keyed_state)) \<and>
   runAnalysis (\<lambda>rq. Resolved ok_response) keyed_state
     = (keyed_state\<lparr> error := Some ''Please upload at least one ABAP file'' \<rparr>, [])"
proof -
  have f: "files keyed_state = []" by (simp add: keyed_state_simps)
  have k: "truthy (apiKey (analysisSettings keyed_state))" by (simp add: keyed_state_simps)
  from runAnalysis_no_files [OF f k] f k show ?thesis by simp
qed

text \<open>
  C6. With at least one uploaded file and no API key configured (the key is falsy),
  \<^verbatim>\<open>runAnalysis\<close> issues no request and sets the message asking for an API key; every
  other state variable keeps its value.
\<close>

theorem runAnalysis_no_api_key:
  assumes "files s \<noteq> []" and "\<not> truthy (apiKey (analysisSettings s))"
  shows "runAnalysis net s = (s\<lparr> error := Some ''Please provide an API key in settings'' \<rparr>, [])"
  using assms by (simp add: runAnalysis_def runAnalysis_submit_def)

theorem runAnalysis_no_api_key_witness:
  "files (initial_state\<lparr> files := [report_file] \<rparr>) \<noteq> [] \<and>
   \<not> truthy (apiKey (analysisSettings (initial_state\<lparr> files := [report_file] \<rparr>))) \<and>
   runAnalysis (\<lambda>rq. Resolved ok_response) (initial_state\<lparr> files := [report_file] \<rparr>)
     = (initial_state\<lparr> files := [report_file],
                       error := Some ''Please provide an API key in settings'' \<rparr>, [])"
proof -
  let ?s = "initial_state\<lparr> files := [report_file] \<rparr>"
  have f: "files ?s \<noteq> []" by simp
  have k: "\<not> truthy (apiKey (analysisSettings ?s))"
    by (simp add: initial_state_def initial_settings_def)
  from runAnalysis_no_api_key [OF f k] f k show ?thesis by simp
qed

section \<open>runAnalysis: the outcomes of the request\<close>




text \<open>
  C8. The controller follows the state machine of the spec. When both guards pass, the
  synchronous part of \<^verbatim>\<open>runAnalysis\<close> raises the analyzing flag, clears the error and
  sends the analyze request. From that state a 2xx response whose body parses ends in
  success with the parsed JSON; a non-2xx response, a rejected \<^verbatim>\<open>fetch\<close> and a body
  that does not parse each end in failure with an error shown. Whatever the network
  answers, the analyzing flag is down when \<^verbatim>\<open>runAnalysis\<close> has completed. When a guard
  fails nothing is sent and the flag keeps its value.
\<close>

theorem runAnalysis_state_machine:
  "(submit_guard s \<longrightarrow>
      runAnalysis_submit s
        = (s\<lparr> isAnalyzing := True, error := None \<rparr>, Some (analyze_request s))
      \<and> analyzing (fst (runAnalysis_submit s))
      \<and> runAnalysis net s
          = (runAnalysis_settle (net (analyze_request s)) (fst (runAnalysis_submit s)),
             [analyze_request s])
      \<and> (ok r \<and> json r = Inr v \<longrightarrow>
            succeeded v (runAnalysis_settle (Resolved r) (fst (runAnalysis_submit s))))
      \<and> (\<not> ok r' \<longrightarrow>
            failed (runAnalysis_settle (Resolved r') (fst (runAnalysis_submit s))))
      \<and> failed (runAnalysis_settle (Rejected msg) (fst (runAnalysis_submit s)))
      \<and> (ok r'' \<and> json r'' = Inl msg' \<longrightarrow>
            failed (runAnalysis_settle (Resolved r'') (fst (runAnalysis_submit s))))
      \<and> \<not> isAnalyzing (fst (runAnalysis net s)))
   \<and> (\<not> submit_guard s \<longrightarrow>
        snd (runAnalysis_submit s) = None
      \<and> snd (runAnalysis net s) = []
      \<and> isAnalyzing (fst (runAnalysis net s)) = isAnalyzing s)"
proof (cases "submit_guard s")
  case True
  let ?s1 = "s\<lparr> isAnalyzing := True, error := None \<rparr>"
  have sub: "runAnalysis_submit s = (?s1, Some (analyze_request s))"
    using True by (rule runAnalysis_submit_guarded)
  have run: "runAnalysis net s = (runAnalysis_settle (net (analyze_request s)) ?s1,
               [analyze_request s])"
    by (simp add: runAnalysis_def sub)
  have down: "\<not> isAnalyzing (runAnalysis_settle fr ?s1)" for fr
    by (simp add: runAnalysis_settle_def Let_def split: sum.split)
  have good: "succeeded v (runAnalysis_settle (Resolved r) ?s1)" if "ok r" "json r = Inr v"
    using that by (simp add: succeeded_def runAnalysis_settle_def runAnalysis_try_def)
  have bad: "failed (runAnalysis_settle (Resolved r') ?s1)" if "\<not> ok r'"
    using that
    by (simp add: failed_def shown_error_def runAnalysis_settle_def runAnalysis_try_def)
  have net_fail: "failed (runAnalysis_settle (Rejected msg) ?s1)"
    by (simp add: failed_def shown_error_def runAnalysis_settle_def runAnalysis_try_def)
  have parse: "failed (runAnalysis_settle (Resolved r'') ?s1)" if "ok r''" "json r'' = Inl msg'"
    using that
    by (simp add: failed_def shown_error_def runAnalysis_settle_def runAnalysis_try_def)
  from True sub run down good bad net_fail parse show ?thesis
    by (simp add: analyzing_def)
next
  case False
  then have "runAnalysis_submit s
               = (s\<lparr> error := Some ''Please upload at least one ABAP file'' \<rparr>, None)
           \<or> runAnalysis_submit s
               = (s\<lparr> error := Some ''Please provide an API key in settings'' \<rparr>, None)"
    by (auto simp add: submit_guard_def runAnalysis_submit_def)
  with False show ?thesis
    by (auto simp add: runAnalysis_def)
qed

theorem runAnalysis_state_machine_witness:
  "submit_guard ready_state \<and> \<not> isAnalyzing ready_state
   \<and> analyzing (fst (runAnalysis_submit ready_state))
   \<and> ok ok_response \<and> json ok_response = Inr new_results
   \<and> succeeded new_results
        (runAnalysis_settle (Resolved ok_response) (fst (runAnalysis_submit ready_state)))
   \<and> \<not> ok error_response
   \<and> failed (runAnalysis_settle (Resolved error_response) (fst (runAnalysis_submit ready_state)))
   \<and> failed (runAnalysis_settle (Rejected ''Failed to fetch'') (fst (runAnalysis_submit ready_state)))
   \<and> ok unparsable_response \<and> json unparsable_response = Inl ''Unexpected end of JSON input''
   \<and> failed (runAnalysis_settle (Resolved unparsable_response)
        (fst (runAnalysis_submit ready_state)))
   \<and> \<not> isAnalyzing (fst (runAnalysis (always (Resolved unparsable_response)) ready_state))
   \<and> \<not> submit_guard keyed_state
   \<and> snd (runAnalysis (always (Resolved ok_response)) keyed_state) = []
   \<and> \<not> isAnalyzing (fst (runAnalysis (always (Resolved ok_response)) keyed_state))"
proof -
  have g: "submit_guard ready_state" by (simp add: submit_guard_def ready_state_simps)
  have ng: "\<not> submit_guard keyed_state" by (simp add: submit_guard_def keyed_state_simps)
  have j: "json ok_response = Inr new_results" by (simp add: ok_response_def)
  have u: "json unparsable_response = Inl ''Unexpected end of JSON input''"
    by (simp add: unparsable_response_def)
  note m = runAnalysis_state_machine
    [of ready_state "always (Resolved unparsable_response)" ok_response new_results
        error_response "''Failed to fetch''" unparsable_response
        "''Unexpected end of JSON input''"]
  note m' = runAnalysis_state_machine
    [of keyed_state "always (Resolved ok_response)" ok_response new_results
        error_response "''Failed to fetch''" unparsable_response
        "''Unexpected end of JSON input''"]
  have i: "\<not> isAnalyzing ready_state" by (simp add: ready_state_simps)
  have i': "\<not> isAnalyzing keyed_state" by (simp add: keyed_state_simps)
  from m m' g ng j u i i' ok_sample_responses show ?thesis
    by blast
qed

section \<open>runAnalysis: a failed request\<close>

text \<open>
  C1, as the code has it. When both guards pass and the analyze request comes back with a
  status outside 200..299, \<^verbatim>\<open>runAnalysis\<close> ends with the analyzing flag down and the
  fixed message \<^verbatim>\<open>Analysis failed: Analysis failed\<close> shown: the generic prefix followed
  by the message of the error it throws itself. Neither the status nor the body of the
  response is read. \<^verbatim>\<open>analysisResults\<close> is left as it was, so whatever results were
  on screen before the call are still on screen after it.
\<close>

theorem runAnalysis_non_2xx:
  assumes "submit_guard s"
    and "net (analyze_request s) = Resolved r"
    and "\<not> ok r"
  shows "runAnalysis net s
           = (s\<lparr> isAnalyzing := False, error := Some ''Analysis failed: Analysis failed'' \<rparr>,
              [analyze_request s])
         \<and> failed (fst (runAnalysis net s))
         \<and> shown_error (fst (runAnalysis net s)) = Some ''Analysis failed: Analysis failed''
         \<and> analysisResults (fst (runAnalysis net s)) = analysisResults s
         \<and> shown_results (fst (runAnalysis net s)) = shown_results s"
proof -
  have run: "runAnalysis net s
               = (s\<lparr> isAnalyzing := False, error := Some ''Analysis failed: Analysis failed'' \<rparr>,
                  [analyze_request s])"
    using assms
    by (simp add: runAnalysis_def runAnalysis_submit_guarded runAnalysis_settle_def
        runAnalysis_try_def)
  then show ?thesis
    by (simp add: failed_def shown_error_def shown_results_def)
qed

theorem runAnalysis_non_2xx_witness:
  "submit_guard analysed_state \<and> \<not> ok error_response
   \<and> runAnalysis (always (Resolved error_response)) analysed_state
       = (analysed_state\<lparr> error := Some ''Analysis failed: Analysis failed'' \<rparr>,
          [analyze_request analysed_state])
   \<and> analysisResults (fst (runAnalysis (always (Resolved error_response)) analysed_state))
       = old_results"
proof -
  have g: "submit_guard analysed_state"
    by (simp add: submit_guard_def analysed_state_def ready_state_simps)
  have n: "always (Resolved error_response) (analyze_request analysed_state)
             = Resolved error_response"
    by (simp add: always_def)
  have o: "\<not> ok error_response" by (rule ok_sample_responses)
  have e: "analysed_state\<lparr> isAnalyzing := False,
              error := Some ''Analysis failed: Analysis failed'' \<rparr>
             = analysed_state\<lparr> error := Some ''Analysis failed: Analysis failed'' \<rparr>"
    by (simp add: analysed_state_def ready_state_def keyed_state_def initial_state_def)
  have a: "analysisResults analysed_state = old_results" by (simp add: analysed_state_def)
  from runAnalysis_non_2xx
    [of analysed_state "always (Resolved error_response)" error_response, OF g n o] g o e a
  show ?thesis by simp
qed

text \<open>
  C1 as stated fails: an earlier analysis has left its results on screen, the next request
  is answered with status 500 and a body naming the cause, and afterwards the earlier
  results are still handed to the viewer, next to an error message that carries nothing
  of the response.
\<close>

theorem runAnalysis_non_2xx_counterexample:
  "\<not> ok error_response
   \<and> shown_results analysed_state = Some old_results
   \<and> shown_results (fst (runAnalysis (always (Resolved error_response)) analysed_state))
       = Some old_results
   \<and> shown_error (fst (runAnalysis (always (Resolved error_response)) analysed_state))
       = Some ''Analysis failed: Analysis failed''"
proof -
  have g: "submit_guard analysed_state"
    by (simp add: submit_guard_def analysed_state_def ready_state_simps)
  have run: "runAnalysis (always (Resolved error_response)) analysed_state
      = (analysed_state\<lparr> isAnalyzing := False,
           error := Some ''Analysis failed: Analysis failed'' \<rparr>,
         [analyze_request analysed_state])"
    by (simp add: runAnalysis_def runAnalysis_submit_guarded [OF g] runAnalysis_settle_def
        runAnalysis_try_def always_def ok_sample_responses)
  have res: "analysisResults analysed_state = old_results" "truthy old_results"
    by (simp_all add: analysed_state_def old_results_def)
  from run res ok_sample_responses(2) show ?thesis
    by (simp add: shown_results_def shown_error_def)
qed

section \<open>handleFileUpload\<close>

text \<open>
  C9. A selection in which no file name ends in \<^verbatim>\<open>.abap\<close> or \<^verbatim>\<open>.ABAP\<close> leaves
  the file list, and everything but the error message, as it was. A selection with at
  least one such file appends the matching files, in their order, after the files already
  uploaded, which all stay in place.
\<close>

theorem handleFileUpload_frame:
  "((\<forall>file \<in> set selectedFiles. \<not> is_abap_file file) \<longrightarrow>
      handleFileUpload selectedFiles s
        = s\<lparr> error := Some ''Please select ABAP files (.abap extension)'' \<rparr>
      \<and> files (handleFileUpload selectedFiles s) = files s)
   \<and> ((\<exists>file \<in> set selectedFiles. is_abap_file file) \<longrightarrow>
      files (handleFileUpload selectedFiles s) = files s @ filter is_abap_file selectedFiles
      \<and> take (length (files s)) (files (handleFileUpload selectedFiles s)) = files s)"
proof -
  have none: "filter is_abap_file selectedFiles = []"
    if "\<forall>file \<in> set selectedFiles. \<not> is_abap_file file"
    using that by (simp add: filter_empty_conv)
  have some: "filter is_abap_file selectedFiles \<noteq> []"
    if "\<exists>file \<in> set selectedFiles. is_abap_file file"
    using that by (simp add: filter_empty_conv)
  show ?thesis
    using none some by (auto simp add: handleFileUpload_def Let_def)
qed

theorem handleFileUpload_frame_witness:
  "\<not> is_abap_file text_file \<and> \<not> is_abap_file mixed_case_file
   \<and> files (handleFileUpload [text_file, mixed_case_file] ready_state) = [report_file]
   \<and> is_abap_file upper_file
   \<and> files (handleFileUpload [text_file, upper_file] ready_state) = [report_file, upper_file]"
proof -
  have n: "\<forall>file \<in> set [text_file, mixed_case_file]. \<not> is_abap_file file"
    by (simp add: is_abap_samples)
  have y: "\<exists>file \<in> set [text_file, upper_file]. is_abap_file file"
    by (simp add: is_abap_samples)
  from handleFileUpload_frame [of "[text_file, mixed_case_file]" ready_state]
       handleFileUpload_frame [of "[text_file, upper_file]" ready_state] n y
  show ?thesis
    by (simp add: is_abap_samples ready_state_simps)
qed

text \<open>
  C3, as the code has it. The files kept from a selection are exactly those whose name
  ends in one of the two spellings \<^verbatim>\<open>.abap\<close> and \<^verbatim>\<open>.ABAP\<close>; every other file of
  the selection is left out; and when none is kept the extension-error message is set.
\<close>

theorem handleFileUpload_two_spellings:
  "files (handleFileUpload selectedFiles s)
     = files s @ filter (\<lambda>file. endsWith (name file) ''.abap'' \<or> endsWith (name file) ''.ABAP'')
                   selectedFiles
   \<and> ((\<forall>file \<in> set selectedFiles.
          \<not> endsWith (name file) ''.abap'' \<and> \<not> endsWith (name file) ''.ABAP'') \<longrightarrow>
        error (handleFileUpload selectedFiles s)
          = Some ''Please select ABAP files (.abap extension)'')"
proof -
  have f: "is_abap_file = (\<lambda>file. endsWith (name file) ''.abap'' \<or> endsWith (name file) ''.ABAP'')"
    by (rule ext) (simp add: is_abap_file_def)
  show ?thesis
    unfolding handleFileUpload_def Let_def f [symmetric]
    by (auto simp add: filter_empty_conv is_abap_file_def)
qed

theorem handleFileUpload_two_spellings_witness:
  "\<not> endsWith (name text_file) ''.abap'' \<and> \<not> endsWith (name text_file) ''.ABAP''
   \<and> files (handleFileUpload [text_file] initial_state) = []
   \<and> error (handleFileUpload [text_file] initial_state)
       = Some ''Please select ABAP files (.abap extension)''"
proof -
  have n: "\<forall>file \<in> set [text_file].
      \<not> endsWith (name file) ''.abap'' \<and> \<not> endsWith (name file) ''.ABAP''"
    by (simp add: endsWith_def text_file_def)
  have i: "files initial_state = []" by (simp add: initial_state_def)
  from handleFileUpload_two_spellings [of "[text_file]" initial_state] n i
  show ?thesis by simp
qed

text \<open>
  C3 as stated fails: the extension is not compared without regard to case. A file named
  \<^verbatim>\<open>zutil.Abap\<close> has the extension under a case-insensitive comparison, yet of the
  selection of it and \<^verbatim>\<open>zreport.abap\<close> only the latter is kept.
\<close>

theorem handleFileUpload_mixed_case_counterexample:
  "has_abap_extension_ci mixed_case_file
   \<and> files (handleFileUpload [report_file, mixed_case_file] initial_state) = [report_file]"
proof -
  have ci: "has_abap_extension_ci mixed_case_file"
    by (simp add: has_abap_extension_ci_def mixed_case_file_def endsWith_def ascii_lower_def)
  have "files (handleFileUpload [report_file, mixed_case_file] initial_state) = [report_file]"
    by (simp add: handleFileUpload_def Let_def is_abap_samples initial_state_def)
  with ci show ?thesis by simp
qed

section \<open>toggleAgent\<close>

text \<open>
  C10. \<^verbatim>\<open>toggleAgent\<close> flips whether the given identifier is among the selected agents,
  leaves every other identifier's membership as it was, changes nothing of the state but
  the agents list, and applied twice with the same identifier gives back the original
  membership of every agent.
\<close>

theorem toggleAgent_flips:
  "(agentId \<in> set (agents (analysisSettings (toggleAgent agentId s))))
     = (agentId \<notin> set (agents (analysisSettings s)))
   \<and> (other \<noteq> agentId \<longrightarrow>
        (other \<in> set (agents (analysisSettings (toggleAgent agentId s))))
          = (other \<in> set (agents (analysisSettings s))))
   \<and> toggleAgent agentId s
       = s\<lparr> analysisSettings :=
             (analysisSettings s)\<lparr> agents := agents (analysisSettings (toggleAgent agentId s)) \<rparr> \<rparr>
   \<and> set (agents (analysisSettings (toggleAgent agentId (toggleAgent agentId s))))
       = set (agents (analysisSettings s))"
  by (auto simp add: toggleAgent_def)

theorem toggleAgent_flips_witness:
  "''context'' \<noteq> ''logic''
   \<and> ''logic'' \<in> set (agents (analysisSettings initial_state))
   \<and> ''logic'' \<notin> set (agents (analysisSettings (toggleAgent ''logic'' initial_state)))
   \<and> ''context'' \<in> set (agents (analysisSettings (toggleAgent ''logic'' initial_state)))
   \<and> set (agents (analysisSettings (toggleAgent ''logic'' (toggleAgent ''logic'' initial_state))))
       = set (agents (analysisSettings initial_state))"
proof -
  have d: "''context'' \<noteq> ''logic''" by simp
  have a: "agents (analysisSettings initial_state)
             = [''functionality'', ''technical'', ''logic'', ''context'']"
    by (simp add: initial_state_def initial_settings_def)
  have l: "''logic'' \<in> set (agents (analysisSettings initial_state))" by (simp add: a)
  have c: "''context'' \<in> set (agents (analysisSettings initial_state))" by (simp add: a)
  from toggleAgent_flips [of "''logic''" initial_state "''context''"] d l c
  show ?thesis by blast
qed

section \<open>The configuration endpoint\<close>

lemma js_or_env_default:
  "js_or (env_get env k) (JStr d)
     = JStr (case env k of None \<Rightarrow> d | Some v \<Rightarrow> if v = [] then d else v)"
  by (simp add: js_or_def env_get_def split: option.split)

lemma js_or_env_chain:
  "js_or (env_get env k) b = (if nonempty_var env k then env_get env k else b)"
  by (simp add: js_or_def env_get_def nonempty_var_def split: option.split)

text \<open>
  C2, as the code has it. For every environment the handler answers, without an error
  path, with an object in which: \<^verbatim>\<open>apiKey\<close> is the first of \<^verbatim>\<open>API_KEY\<close>,
  \<^verbatim>\<open>OPENAI_API_KEY\<close>, \<^verbatim>\<open>ANTHROPIC_API_KEY\<close> that is set to a non-empty string, and
  when none is, whatever \<^verbatim>\<open>ANTHROPIC_API_KEY\<close> reads as (the empty string, or
  \<^verbatim>\<open>undefined\<close> when it is not set: no default is substituted, and the JSON then has
  no \<^verbatim>\<open>apiKey\<close> field); \<^verbatim>\<open>apiProvider\<close> is \<^verbatim>\<open>API_PROVIDER\<close> when that is set and
  non-empty and \<^verbatim>\<open>anthropic\<close> otherwise; \<^verbatim>\<open>modelName\<close> is \<^verbatim>\<open>MODEL_NAME\<close> when that
  is set and non-empty and the dated model identifier otherwise; \<^verbatim>\<open>apiBaseUrl\<close> is
  \<^verbatim>\<open>API_BASE_URL\<close>, or the empty string when that is not set.
\<close>

theorem api_config_first_nonempty:
  "cfg_apiKey (api_config env)
     = (if nonempty_var env ''API_KEY'' then env_get env ''API_KEY''
        else if nonempty_var env ''OPENAI_API_KEY'' then env_get env ''OPENAI_API_KEY''
        else env_get env ''ANTHROPIC_API_KEY'')
   \<and> cfg_apiProvider (api_config env)
       = JStr (case env ''API_PROVIDER'' of
                 None \<Rightarrow> ''anthropic''
               | Some v \<Rightarrow> if v = [] then ''anthropic'' else v)
   \<and> cfg_modelName (api_config env)
       = JStr (case env ''MODEL_NAME'' of
                 None \<Rightarrow> ''claude-3-7-sonnet-20250219''
               | Some v \<Rightarrow> if v = [] then ''claude-3-7-sonnet-20250219'' else v)
   \<and> cfg_apiBaseUrl (api_config env)
       = JStr (case env ''API_BASE_URL'' of None \<Rightarrow> '''' | Some v \<Rightarrow> v)
   \<and> get_api_config env
       = JObj ((if cfg_apiKey (api_config env) = JUndefined then []
                else [(''apiKey'', cfg_apiKey (api_config env))])
               @ [(''apiProvider'', cfg_apiProvider (api_config env)),
                  (''modelName'', cfg_modelName (api_config env)),
                  (''apiBaseUrl'', cfg_apiBaseUrl (api_config env))])
   \<and> (cfg_apiKey (api_config env) = JUndefined
        \<longleftrightarrow> \<not> nonempty_var env ''API_KEY'' \<and> \<not> nonempty_var env ''OPENAI_API_KEY''
            \<and> env ''ANTHROPIC_API_KEY'' = None)"
proof -
  have key: "cfg_apiKey (api_config env)
     = (if nonempty_var env ''API_KEY'' then env_get env ''API_KEY''
        else if nonempty_var env ''OPENAI_API_KEY'' then env_get env ''OPENAI_API_KEY''
        else env_get env ''ANTHROPIC_API_KEY'')"
    by (simp add: api_config_def js_or_env_chain)
  have prov: "cfg_apiProvider (api_config env)
       = JStr (case env ''API_PROVIDER'' of
                 None \<Rightarrow> ''anthropic''
               | Some v \<Rightarrow> if v = [] then ''anthropic'' else v)"
    by (simp add: api_config_def js_or_env_default)
  have mod: "cfg_modelName (api_config env)
       = JStr (case env ''MODEL_NAME'' of
                 None \<Rightarrow> ''claude-3-7-sonnet-20250219''
               | Some v \<Rightarrow> if v = [] then ''claude-3-7-sonnet-20250219'' else v)"
    by (simp add: api_config_def js_or_env_default)
  have base: "cfg_apiBaseUrl (api_config env)
       = JStr (case env ''API_BASE_URL'' of None \<Rightarrow> '''' | Some v \<Rightarrow> v)"
    by (simp add: api_config_def js_or_env_default split: option.split)
  have body: "get_api_config env
       = JObj ((if cfg_apiKey (api_config env) = JUndefined then []
                else [(''apiKey'', cfg_apiKey (api_config env))])
               @ [(''apiProvider'', cfg_apiProvider (api_config env)),
                  (''modelName'', cfg_modelName (api_config env)),
                  (''apiBaseUrl'', cfg_apiBaseUrl (api_config env))])"
    by (simp add: get_api_config_def res_json_def prov mod base)
  have undef: "cfg_apiKey (api_config env) = JUndefined
        \<longleftrightarrow> \<not> nonempty_var env ''API_KEY'' \<and> \<not> nonempty_var env ''OPENAI_API_KEY''
            \<and> env ''ANTHROPIC_API_KEY'' = None"
    unfolding key by (simp add: env_get_def nonempty_var_def split: option.split)
  from key prov mod base body undef show ?thesis by blast
qed

theorem api_config_first_nonempty_witness:
  "\<not> nonempty_var blank_key_env ''API_KEY'' \<and> nonempty_var blank_key_env ''OPENAI_API_KEY''
   \<and> cfg_apiKey (api_config blank_key_env) = JStr ''sk-live''
   \<and> cfg_apiProvider (api_config blank_key_env) = JStr ''anthropic''
   \<and> cfg_modelName (api_config blank_key_env) = JStr ''claude-3-7-sonnet-20250219''
   \<and> cfg_apiBaseUrl (api_config blank_key_env) = JStr ''''
   \<and> get_api_config blank_key_env
       = JObj [(''apiKey'', JStr ''sk-live''), (''apiProvider'', JStr ''anthropic''),
               (''modelName'', JStr ''claude-3-7-sonnet-20250219''), (''apiBaseUrl'', JStr '''')]"
proof -
  have e: "blank_key_env ''API_KEY'' = Some ''''"
    "blank_key_env ''OPENAI_API_KEY'' = Some ''sk-live''"
    "blank_key_env ''API_PROVIDER'' = Some ''''"
    "blank_key_env ''MODEL_NAME'' = None"
    "blank_key_env ''API_BASE_URL'' = None"
    by (simp_all add: blank_key_env_def)
  have n: "\<not> nonempty_var blank_key_env ''API_KEY''"
    "nonempty_var blank_key_env ''OPENAI_API_KEY''"
    by (simp_all add: nonempty_var_def e)
  from api_config_first_nonempty [of blank_key_env] n e show ?thesis
    by (simp add: env_get_def)
qed

text \<open>
  C2 as stated fails twice. With \<^verbatim>\<open>API_KEY\<close> set to the empty string and
  \<^verbatim>\<open>OPENAI_API_KEY\<close> set to a key, the first present variable is \<^verbatim>\<open>API_KEY\<close>, yet
  the answer carries the OpenAI key; and with \<^verbatim>\<open>API_PROVIDER\<close> set (to the empty
  string) the answer carries the default provider. With nothing set, no default stands in
  for the key and the answer has three fields.
\<close>

theorem api_config_first_present_counterexample:
  "first_present blank_key_env [''API_KEY'', ''OPENAI_API_KEY'', ''ANTHROPIC_API_KEY'']
     = Some ''''
   \<and> cfg_apiKey (api_config blank_key_env) = JStr ''sk-live''
   \<and> blank_key_env ''API_PROVIDER'' = Some ''''
   \<and> cfg_apiProvider (api_config blank_key_env) = JStr ''anthropic''
   \<and> get_api_config empty_env
       = JObj [(''apiProvider'', JStr ''anthropic''),
               (''modelName'', JStr ''claude-3-7-sonnet-20250219''), (''apiBaseUrl'', JStr '''')]"
  by (simp add: first_present_def blank_key_env_def empty_env_def api_config_def js_or_def
      env_get_def get_api_config_def res_json_def)

section \<open>fetchConfig\<close>

text \<open>A 2xx configuration response whose body is \<^verbatim>\<open>null\<close>: the \<^verbatim>\<open>catch\<close> does
  not run, \<^verbatim>\<open>configError\<close> stays unset, the configuration counts as loaded, and the
  render throws the TypeError of the updater.\<close>

lemma fetchConfig_null_body:
  "fetchConfig (always (Resolved null_response)) initial_state
     = (Inl (''Cannot read properties of null (reading 'apiKey')'',
             initial_state\<lparr> configLoaded := True \<rparr>),
        [config_request])"
  by (simp add: fetchConfig_def fetchConfig_try_def apply_config_def always_def ok_def
      null_response_def)

text \<open>
  C4, as the code has it. After a configuration fetch that succeeds (a 2xx response whose
  body parses to a value other than \<^verbatim>\<open>null\<close>), the four settings are taken from the
  fields \<^verbatim>\<open>apiKey\<close>, \<^verbatim>\<open>apiProvider\<close>, \<^verbatim>\<open>modelName\<close> and \<^verbatim>\<open>apiBaseUrl\<close> of the
  response: a field that is truthy is taken as it is, and the default (the empty string,
  \<^verbatim>\<open>anthropic\<close>, the dated model identifier, the empty string) is used for a field
  that is absent or falsy (the empty string, \<^verbatim>\<open>null\<close>, \<^verbatim>\<open>false\<close>, \<^verbatim>\<open>0\<close>). The
  agents and the output format keep their values, and the configuration counts as loaded.
\<close>

theorem fetchConfig_populates:
  assumes "net config_request = Resolved r"
    and "ok r"
    and "json r = Inr config"
    and "config \<noteq> JNull"
    and "config \<noteq> JUndefined"
  shows "fetchConfig net s
     = (Inr (s\<lparr> analysisSettings := (analysisSettings s)
            \<lparr> apiKey := (if truthy (get_prop config ''apiKey'')
                          then get_prop config ''apiKey'' else JStr ''''),
              provider := (if truthy (get_prop config ''apiProvider'')
                            then get_prop config ''apiProvider'' else JStr ''anthropic''),
              model := (if truthy (get_prop config ''modelName'')
                         then get_prop config ''modelName''
                         else JStr ''claude-3-7-sonnet-20250219''),
              apiBaseUrl := (if truthy (get_prop config ''apiBaseUrl'')
                              then get_prop config ''apiBaseUrl'' else JStr '''') \<rparr>,
            configLoaded := True \<rparr>),
        [config_request])"
  using assms
  by (simp add: fetchConfig_def fetchConfig_try_def apply_config_def js_or_def)

theorem fetchConfig_populates_witness:
  "ok (served_config anthropic_env)
   \<and> json (served_config anthropic_env)
       = Inr (JObj [(''apiKey'', JStr ''sk-ant-1''), (''apiProvider'', JStr ''anthropic''),
                    (''modelName'', JStr ''claude-3-7-sonnet-20250219''),
                    (''apiBaseUrl'', JStr '''')])
   \<and> fetchConfig (always (Resolved (served_config anthropic_env))) initial_state
       = (Inr (initial_state\<lparr> analysisSettings := initial_settings\<lparr> apiKey := JStr ''sk-ant-1'' \<rparr>,
                              configLoaded := True \<rparr>),
          [config_request])"
proof -
  let ?config = "JObj [(''apiKey'', JStr ''sk-ant-1''), (''apiProvider'', JStr ''anthropic''),
                    (''modelName'', JStr ''claude-3-7-sonnet-20250219''),
                    (''apiBaseUrl'', JStr '''')]"
  have n: "always (Resolved (served_config anthropic_env)) config_request
             = Resolved (served_config anthropic_env)"
    by (simp add: always_def)
  have o: "ok (served_config anthropic_env)" by (simp add: ok_def served_config_def)
  have j: "json (served_config anthropic_env) = Inr ?config"
    by (simp add: served_config_def get_api_config_def res_json_def api_config_def js_or_def
        env_get_def anthropic_env_def)
  have c: "?config \<noteq> JNull" "?config \<noteq> JUndefined" by simp_all
  from fetchConfig_populates
    [of "always (Resolved (served_config anthropic_env))" "served_config anthropic_env"
        ?config initial_state, OF n o j c] o j
  show ?thesis
    by (simp add: initial_state_def initial_settings_def)
qed

text \<open>
  C4 as stated fails: a field that is present is not always taken as it is. A response
  that carries \<^verbatim>\<open>apiProvider\<close> and \<^verbatim>\<open>modelName\<close> as empty strings leaves the client
  with the default provider and the default model.
\<close>

theorem fetchConfig_present_field_counterexample:
  "get_prop blank_provider_config ''apiProvider'' = JStr ''''
   \<and> get_prop blank_provider_config ''modelName'' = JStr ''''
   \<and> fetchConfig (always (Resolved blank_provider_response)) initial_state
       = (Inr (initial_state
                \<lparr> analysisSettings := initial_settings
                     \<lparr> apiKey := JStr ''sk-live'',
                       provider := JStr ''anthropic'',
                       model := JStr ''claude-3-7-sonnet-20250219'',
                       apiBaseUrl := JStr ''https://proxy.example/v1'' \<rparr>,
                  configLoaded := True \<rparr>),
          [config_request])"
  by (simp add: blank_provider_config_def blank_provider_response_def always_def
      fetchConfig_def fetchConfig_try_def ok_def apply_config_def js_or_def
      initial_state_def initial_settings_def)

end
